theory Spec2Isabelle
  imports Main "HOL-Library.Sublist"
begin

section \<open>Text and the characters of the two patterns\<close>

text \<open>
  The script \<^verbatim>\<open>fix_templates.py\<close> reads a file as text, applies two calls of
  \<^verbatim>\<open>re.sub\<close> and writes the text back. Text is a list of characters. The four
  characters the patterns and replacements mention are named here by their code.
\<close>

abbreviation backslash :: char where "backslash \<equiv> CHR 0x5C"
abbreviation backtick :: char where "backtick \<equiv> CHR 0x60"
abbreviation dollar :: char where "dollar \<equiv> CHR 0x24"
abbreviation newline :: char where "newline \<equiv> CHR 0x0A"

section \<open>The fragment of Python's regular expressions the script uses\<close>

text \<open>
  A compiled pattern of the fragment is a sequence of atoms: a literal character, or the
  anchor \<^verbatim>\<open>$\<close>, which (without the MULTILINE flag) holds at the end of the text and just
  before a newline that is the last character of the text.
\<close>

datatype atom = Lit char | EndAnchor

text \<open>
  \<open>re_compile\<close> reads the pattern text as \<^verbatim>\<open>re\<close> does: a backslash escapes the backslash
  after it, giving one literal backslash; a dollar sign that is not escaped is the anchor;
  every other character that is not a metacharacter stands for itself. Anything else is
  outside the fragment (\<open>None\<close>).
\<close>

fun re_compile :: "string \<Rightarrow> atom list option" where
  "re_compile [] = Some []"
| "re_compile [c] =
     (if c = backslash then None
      else if c = dollar then Some [EndAnchor]
      else if c \<in> set ''.^*+?{}[]|()'' then None
      else Some [Lit c])"
| "re_compile (c # d # cs) =
     (if c = backslash then
        (if d = backslash then map_option ((#) (Lit backslash)) (re_compile cs) else None)
      else if c = dollar then map_option ((#) EndAnchor) (re_compile (d # cs))
      else if c \<in> set ''.^*+?{}[]|()'' then None
      else map_option ((#) (Lit c)) (re_compile (d # cs)))"

text \<open>
  \<open>match_here p s\<close> matches the pattern at the start of \<open>s\<close> and returns the text after the
  match.
\<close>

fun match_here :: "atom list \<Rightarrow> string \<Rightarrow> string option" where
  "match_here [] s = Some s"
| "match_here (Lit c # p) [] = None"
| "match_here (Lit c # p) (x # s) = (if x = c then match_here p s else None)"
| "match_here (EndAnchor # p) s =
     (if s = [] \<or> s = [newline] then match_here p s else None)"

text \<open>
  \<open>re_sub p repl s\<close> is \<^verbatim>\<open>re.sub\<close> with a replacement text free of group references: the
  text is scanned from the left; where the pattern matches, the replacement is emitted and
  the scan goes on after the match; elsewhere the character is copied. An empty match emits
  the replacement and copies the next character.
\<close>

fun re_sub :: "atom list \<Rightarrow> string \<Rightarrow> string \<Rightarrow> string" where
  "re_sub p repl s =
     (case match_here p s of
        None \<Rightarrow> (case s of [] \<Rightarrow> [] | c # cs \<Rightarrow> c # re_sub p repl cs)
      | Some rest \<Rightarrow>
          if length rest < length s then repl @ re_sub p repl rest
          else (case s of [] \<Rightarrow> repl | c # cs \<Rightarrow> repl @ c # re_sub p repl cs))"

declare re_sub.simps [simp del]

section \<open>The two substitutions of \<open>fix_template_literals\<close>\<close>

text \<open>
  The pattern texts are raw string literals, so the script's
  \<^verbatim>\<open>r'\\\\`'\<close> is four backslashes and a backtick, and
  \<^verbatim>\<open>r'\\\\\\$'\<close> is six backslashes and a dollar sign.
\<close>

definition raw_backtick_pattern :: string where
  "raw_backtick_pattern = [backslash, backslash, backslash, backslash, backtick]"

definition raw_dollar_pattern :: string where
  "raw_dollar_pattern =
     [backslash, backslash, backslash, backslash, backslash, backslash, dollar]"

definition backtick_pattern :: "atom list" where
  "backtick_pattern = [Lit backslash, Lit backslash, Lit backtick]"

definition dollar_pattern :: "atom list" where
  "dollar_pattern = [Lit backslash, Lit backslash, Lit backslash, EndAnchor]"

text \<open>Substitution A: \<^verbatim>\<open>content = re.sub(r'\\\\`', '`', content)\<close>.\<close>

definition fix_backticks :: "string \<Rightarrow> string" where
  "fix_backticks content = re_sub backtick_pattern [backtick] content"

text \<open>Substitution B: \<^verbatim>\<open>content = re.sub(r'\\\\\\$', '$', content)\<close>.\<close>

definition fix_dollars :: "string \<Rightarrow> string" where
  "fix_dollars content = re_sub dollar_pattern [dollar] content"

text \<open>The text transformation of one patch: substitution A, then substitution B.\<close>

definition fix_text :: "string \<Rightarrow> string" where
  "fix_text content = fix_dollars (fix_backticks content)"

section \<open>Files, errors and the console\<close>

text \<open>
  What the script sees of its environment. A file has permissions, holds either bytes that
  decode as UTF-8 to a text or bytes the codec rejects (with the codec's message), and may
  sit on a device that stores only so many characters of a rewritten file. The contents are
  kept as text, which is what \<^verbatim>\<open>read\<close> returns and \<^verbatim>\<open>write\<close> takes; the text layer's
  codec and line-ending handling are below this model. The console is the text written to
  standard output so far.
\<close>

type_synonym path = string

datatype contents = Text string | Malformed string

record inode =
  readable :: bool
  writable :: bool
  contents :: contents
  capacity :: "nat option"

record world =
  disk :: "path \<rightharpoonup> inode"
  stdout :: string

text \<open>The exceptions the file operations raise; all are subclasses of \<^verbatim>\<open>Exception\<close>.\<close>

datatype error =
    FileNotFoundError path
  | PermissionError path
  | UnicodeDecodeError string
  | NoSpaceError

definition quoted :: "string \<Rightarrow> string" where
  "quoted s = [CHR 0x27] @ s @ [CHR 0x27]"

text \<open>\<open>str e\<close> is the message that \<^verbatim>\<open>{e}\<close> formats.\<close>

fun str :: "error \<Rightarrow> string" where
  "str (FileNotFoundError p) = ''[Errno 2] No such file or directory: '' @ quoted p"
| "str (PermissionError p) = ''[Errno 13] Permission denied: '' @ quoted p"
| "str (UnicodeDecodeError m) = m"
| "str NoSpaceError = ''[Errno 28] No space left on device''"

text \<open>
  \<^verbatim>\<open>with open(filename, 'r', encoding='utf-8') as f: content = f.read()\<close>:
  opening fails on a missing or unreadable file, reading fails on bytes that do not decode.
  The world is not changed.
\<close>

definition read_text :: "path \<Rightarrow> world \<Rightarrow> error + string" where
  "read_text filename w =
     (case disk w filename of
        None \<Rightarrow> Inl (FileNotFoundError filename)
      | Some f \<Rightarrow>
          if \<not> readable f then Inl (PermissionError filename)
          else (case contents f of
                  Malformed m \<Rightarrow> Inl (UnicodeDecodeError m)
                | Text t \<Rightarrow> Inr t))"

text \<open>
  \<^verbatim>\<open>with open(filename, 'w', encoding='utf-8') as f: f.write(content)\<close>:
  opening fails on a file that is not writable and leaves it as it is; otherwise opening
  truncates the file (or creates it), and the write stores the text, or only the part of
  it that fits and then fails.
\<close>

definition write_text :: "path \<Rightarrow> string \<Rightarrow> world \<Rightarrow> (error + unit) \<times> world" where
  "write_text filename content w =
     (case disk w filename of
        None \<Rightarrow>
          (Inr (), w\<lparr>disk := (disk w)(filename \<mapsto>
             \<lparr>readable = True, writable = True, contents = Text content, capacity = None\<rparr>)\<rparr>)
      | Some f \<Rightarrow>
          if \<not> writable f then (Inl (PermissionError filename), w)
          else (case capacity f of
                  None \<Rightarrow>
                    (Inr (), w\<lparr>disk := (disk w)(filename \<mapsto> f\<lparr>contents := Text content\<rparr>)\<rparr>)
                | Some n \<Rightarrow>
                    if length content \<le> n
                    then (Inr (), w\<lparr>disk := (disk w)(filename \<mapsto> f\<lparr>contents := Text content\<rparr>)\<rparr>)
                    else (Inl NoSpaceError,
                          w\<lparr>disk := (disk w)(filename \<mapsto>
                             f\<lparr>contents := Text (take n content)\<rparr>)\<rparr>)))"

text \<open>\<^verbatim>\<open>print(line)\<close> appends the line and a newline to standard output.\<close>

definition print :: "string \<Rightarrow> world \<Rightarrow> world" where
  "print line w = w\<lparr>stdout := stdout w @ line @ [newline]\<rparr>"

section \<open>\<open>fix_template_literals\<close> and the driver\<close>

text \<open>
  The body of the \<^verbatim>\<open>try\<close> block: read, substitute twice, write, print the success
  line. The first exception ends the body; the world keeps what was done before it.
\<close>

definition try_body :: "path \<Rightarrow> world \<Rightarrow> (error + unit) \<times> world" where
  "try_body filename w =
     (case read_text filename w of
        Inl e \<Rightarrow> (Inl e, w)
      | Inr content \<Rightarrow>
          (let content = fix_backticks content;
               content = fix_dollars content
           in case write_text filename content w of
                (Inl e, w') \<Rightarrow> (Inl e, w')
              | (Inr u, w') \<Rightarrow> (Inr (), print (''Fixed '' @ filename) w')))"

text \<open>
  The whole function: \<^verbatim>\<open>except Exception as e\<close> handles every error of the body by
  printing the error line. The result is \<open>Inl e\<close> when an exception leaves the function.
\<close>

definition fix_template_literals :: "path \<Rightarrow> world \<Rightarrow> (error + unit) \<times> world" where
  "fix_template_literals filename w =
     (case try_body filename w of
        (Inr u, w') \<Rightarrow> (Inr (), w')
      | (Inl e, w') \<Rightarrow>
          (Inr (), print (''Error fixing '' @ filename @ '': '' @ str e) w'))"

text \<open>The hardcoded list of the main block.\<close>

definition files :: "path list" where
  "files =
     [''src/api-server.ts'',
      ''src/backfill/utils.ts'',
      ''src/jetstream-collector-enhanced.ts'',
      ''src/production-test.ts'',
      ''src/startup-validator.ts'',
      ''src/strategies.ts'']"

text \<open>
  \<^verbatim>\<open>for filename in files: fix_template_literals(filename)\<close>: an exception that left a
  call would end the loop.
\<close>

fun for_each_file :: "path list \<Rightarrow> world \<Rightarrow> (error + unit) \<times> world" where
  "for_each_file [] w = (Inr (), w)"
| "for_each_file (filename # rest) w =
     (case fix_template_literals filename w of
        (Inl e, w') \<Rightarrow> (Inl e, w')
      | (Inr u, w') \<Rightarrow> for_each_file rest w')"

definition main :: "world \<Rightarrow> (error + unit) \<times> world" where
  "main w = for_each_file files w"

section \<open>A world to run the script in\<close>

text \<open>
  Five of the six listed paths exist: a file of three backslashes, a file whose bytes do
  not decode, a file that is not writable, a file on a device with room for four
  characters, and a file holding an escaped backtick. The third listed path is missing.
\<close>

definition example_world :: world where
  "example_world =
     \<lparr>disk =
        [''src/api-server.ts'' \<mapsto>
           \<lparr>readable = True, writable = True,
            contents = Text [backslash, backslash, backslash], capacity = None\<rparr>,
         ''src/backfill/utils.ts'' \<mapsto>
           \<lparr>readable = True, writable = True,
            contents = Malformed ''invalid start byte'', capacity = None\<rparr>,
         ''src/production-test.ts'' \<mapsto>
           \<lparr>readable = True, writable = False,
            contents = Text ''let a = 1;'', capacity = None\<rparr>,
         ''src/startup-validator.ts'' \<mapsto>
           \<lparr>readable = True, writable = True,
            contents = Text ''let b = 2;'', capacity = Some 4\<rparr>,
         ''src/strategies.ts'' \<mapsto>
           \<lparr>readable = True, writable = True,
            contents = Text (''x = '' @ [backslash, backslash, backtick] @ ''y''),
            capacity = None\<rparr>],
      stdout = []\<rparr>"

section \<open>The patterns as compiled\<close>

lemma compile_backtick_pattern: "re_compile raw_backtick_pattern = Some backtick_pattern"
  by (simp add: raw_backtick_pattern_def backtick_pattern_def)

lemma compile_dollar_pattern: "re_compile raw_dollar_pattern = Some dollar_pattern"
  by (simp add: raw_dollar_pattern_def dollar_pattern_def)

section \<open>Matching and scanning with the two patterns\<close>

lemma match_here_lits:
  "match_here (map Lit p) s = (if prefix p s then Some (drop (length p) s) else None)"
proof (induction p arbitrary: s)
  case Nil
  show ?case by simp
next
  case (Cons a p)
  show ?case by (cases s) (simp_all add: Cons.IH)
qed

lemma match_here_lits_end:
  "match_here (map Lit p @ [EndAnchor]) s =
     (if s = p then Some [] else if s = p @ [newline] then Some [newline] else None)"
proof (induction p arbitrary: s)
  case Nil
  show ?case by simp
next
  case (Cons a p)
  show ?case by (cases s) (auto simp add: Cons.IH)
qed

lemma match_backtick_miss:
  "\<not> prefix [backslash, backslash, backtick] s \<Longrightarrow> match_here backtick_pattern s = None"
  using match_here_lits [of "[backslash, backslash, backtick]" s]
  by (simp add: backtick_pattern_def)

lemma match_dollar:
  "match_here dollar_pattern s =
     (if s = [backslash, backslash, backslash] then Some []
      else if s = [backslash, backslash, backslash, newline] then Some [newline]
      else None)"
  using match_here_lits_end [of "[backslash, backslash, backslash]" s]
  by (simp add: dollar_pattern_def)

lemma fix_backticks_Nil [simp]: "fix_backticks [] = []"
  by (simp add: fix_backticks_def re_sub.simps [of _ _ "[]"] backtick_pattern_def)

lemma fix_backticks_match [simp]:
  "fix_backticks (backslash # backslash # backtick # s) = backtick # fix_backticks s"
  by (simp add: fix_backticks_def re_sub.simps [of _ _ "_ # _"] backtick_pattern_def)

lemma fix_backticks_copy:
  "\<not> prefix [backslash, backslash, backtick] (c # s) \<Longrightarrow>
   fix_backticks (c # s) = c # fix_backticks s"
proof -
  assume "\<not> prefix [backslash, backslash, backtick] (c # s)"
  then have "match_here backtick_pattern (c # s) = None"
    by (rule match_backtick_miss)
  then show ?thesis
    by (simp add: fix_backticks_def re_sub.simps [of _ _ "c # s"])
qed

lemma fix_dollars_unfold:
  "fix_dollars s =
     (if s = [backslash, backslash, backslash] then [dollar]
      else if s = [backslash, backslash, backslash, newline] then [dollar, newline]
      else case s of [] \<Rightarrow> [] | c # cs \<Rightarrow> c # fix_dollars cs)"
  by (simp add: fix_dollars_def re_sub.simps [of _ _ s] re_sub.simps [of _ _ "[]"]
      re_sub.simps [of _ _ "[newline]"] match_dollar split: list.splits)

lemma fix_dollars_Nil [simp]: "fix_dollars [] = []"
  by (subst fix_dollars_unfold) simp

lemma fix_dollars_Cons:
  "fix_dollars (c # cs) =
     (if c # cs = [backslash, backslash, backslash] then [dollar]
      else if c # cs = [backslash, backslash, backslash, newline] then [dollar, newline]
      else c # fix_dollars cs)"
  by (subst fix_dollars_unfold) simp

lemma backtick_scan_induct [case_names Nil match copy]:
  assumes "P []"
    and "\<And>s. P s \<Longrightarrow> P (backslash # backslash # backtick # s)"
    and "\<And>c s. \<not> prefix [backslash, backslash, backtick] (c # s) \<Longrightarrow> P s \<Longrightarrow> P (c # s)"
  shows "P s"
proof (induction s rule: length_induct)
  case (1 s)
  show ?case
  proof (cases "prefix [backslash, backslash, backtick] s")
    case True
    then obtain t where s: "s = backslash # backslash # backtick # t"
      by (auto simp: prefix_def)
    with 1 have "P t" by simp
    with s show ?thesis by (simp add: assms(2))
  next
    case False
    show ?thesis
    proof (cases s)
      case Nil
      with assms(1) show ?thesis by simp
    next
      case (Cons c t)
      with 1 have "P t" by simp
      with False Cons show ?thesis by (simp add: assms(3))
    qed
  qed
qed

lemma no_straddle:
  "\<not> prefix [backslash, backslash, backtick] (c # s) \<Longrightarrow>
   \<not> prefix [backslash, backslash, backtick] (c # s @ backslash # backslash # backtick # ys)"
  by (cases s; cases "tl s") auto

lemma fix_backticks_occurrence:
  "fix_backticks (xs @ [backslash, backslash, backtick] @ ys) =
   fix_backticks xs @ [backtick] @ fix_backticks ys"
proof (induction xs rule: backtick_scan_induct)
  case Nil
  show ?case by simp
next
  case (match s)
  then show ?case by simp
next
  case (copy c s)
  from copy(1) have "\<not> prefix [backslash, backslash, backtick]
      (c # s @ backslash # backslash # backtick # ys)"
    by (rule no_straddle)
  then have "fix_backticks (c # s @ backslash # backslash # backtick # ys) =
      c # fix_backticks (s @ backslash # backslash # backtick # ys)"
    by (rule fix_backticks_copy)
  with copy show ?case by (simp add: fix_backticks_copy)
qed

lemma fix_backticks_id:
  "\<not> sublist [backslash, backslash, backtick] s \<Longrightarrow> fix_backticks s = s"
proof (induction s)
  case Nil
  show ?case by simp
next
  case (Cons c s)
  from Cons.prems have a: "\<not> prefix [backslash, backslash, backtick] (c # s)"
    and b: "\<not> sublist [backslash, backslash, backtick] s"
    by (simp_all add: sublist_Cons_right)
  from a have "fix_backticks (c # s) = c # fix_backticks s" by (rule fix_backticks_copy)
  with Cons.IH [OF b] show ?case by simp
qed

lemma fix_backticks_no_backtick:
  "backtick \<notin> set (fix_backticks s) \<Longrightarrow> fix_backticks s = s"
proof (induction s rule: backtick_scan_induct)
  case Nil
  show ?case by simp
next
  case (match s)
  then show ?case by simp
next
  case (copy c s)
  then show ?case by (simp add: fix_backticks_copy)
qed

lemma fix_backticks_eq_plain:
  assumes "backtick \<notin> set w"
  shows "fix_backticks s = w \<longleftrightarrow> s = w"
proof
  assume h: "fix_backticks s = w"
  with assms have "backtick \<notin> set (fix_backticks s)" by simp
  then have "fix_backticks s = s" by (rule fix_backticks_no_backtick)
  with h show "s = w" by simp
next
  assume h: "s = w"
  have "\<not> sublist [backslash, backslash, backtick] w"
  proof
    assume "sublist [backslash, backslash, backtick] w"
    then have "set [backslash, backslash, backtick] \<subseteq> set w" by (rule set_mono_sublist)
    with assms show False by simp
  qed
  then have "fix_backticks w = w" by (rule fix_backticks_id)
  with h show "fix_backticks s = w" by simp
qed

lemma fix_dollars_head:
  "prefix [backslash, backslash, backtick] (c # fix_dollars t) \<Longrightarrow>
   prefix [backslash, backslash, backtick] (c # t)"
  by (cases t; cases "tl t") (auto simp: fix_dollars_Cons split: if_splits)

lemma fix_dollars_keep_match:
  "fix_dollars (backslash # backslash # backtick # s) =
   backslash # backslash # backtick # fix_dollars s"
  by (simp add: fix_dollars_Cons)

lemma fix_dollars_backtick_Cons:
  "fix_dollars (backtick # s) = backtick # fix_dollars s"
  by (simp add: fix_dollars_Cons)

lemma substitutions_commute:
  "fix_dollars (fix_backticks s) = fix_backticks (fix_dollars s)"
proof (induction s rule: backtick_scan_induct)
  case Nil
  show ?case by simp
next
  case (match s)
  then show ?case by (simp add: fix_dollars_keep_match fix_dollars_backtick_Cons)
next
  case (copy c s)
  let ?t3 = "[backslash, backslash, backslash]"
  let ?t4 = "[backslash, backslash, backslash, newline]"
  have bc: "fix_backticks (c # s) = c # fix_backticks s"
    using copy(1) by (rule fix_backticks_copy)
  have e3: "fix_backticks (c # s) = ?t3 \<longleftrightarrow> c # s = ?t3"
    by (rule fix_backticks_eq_plain) simp
  have e4: "fix_backticks (c # s) = ?t4 \<longleftrightarrow> c # s = ?t4"
    by (rule fix_backticks_eq_plain) simp
  show ?case
  proof (cases "c # s = ?t3 \<or> c # s = ?t4")
    case True
    then have "fix_backticks (c # s) = c # s"
      using e3 e4 by auto
    moreover have "fix_backticks (fix_dollars (c # s)) = fix_dollars (c # s)"
      using True by (auto simp: fix_dollars_Cons fix_backticks_copy)
    ultimately show ?thesis by simp
  next
    case False
    then have d: "fix_dollars (c # s) = c # fix_dollars s"
      by (simp add: fix_dollars_Cons)
    from False e3 e4 bc have "c # fix_backticks s \<noteq> ?t3" "c # fix_backticks s \<noteq> ?t4"
      by auto
    then have "fix_dollars (c # fix_backticks s) = c # fix_dollars (fix_backticks s)"
      by (simp add: fix_dollars_Cons)
    moreover have "\<not> prefix [backslash, backslash, backtick] (c # fix_dollars s)"
      using copy(1) fix_dollars_head by blast
    then have "fix_backticks (c # fix_dollars s) = c # fix_backticks (fix_dollars s)"
      by (rule fix_backticks_copy)
    ultimately show ?thesis using bc d copy.IH by simp
  qed
qed









section \<open>What the substitutions delete\<close>

lemma fix_backticks_subseq: "subseq (fix_backticks s) s"
proof (induction s rule: backtick_scan_induct)
  case Nil
  show ?case by simp
next
  case (match s)
  then show ?case by simp
next
  case (copy c s)
  then show ?case by (simp add: fix_backticks_copy)
qed

lemma fix_backticks_length: "length (fix_backticks s) \<le> length s"
  using fix_backticks_subseq [of s] by (rule list_emb_length)

lemma fix_dollars_length: "length (fix_dollars s) \<le> length s"
proof (induction s)
  case Nil
  show ?case by simp
next
  case (Cons c s)
  then show ?case by (auto simp: fix_dollars_Cons)
qed

lemma fix_text_length: "length (fix_text s) \<le> length s"
  using fix_dollars_length [of "fix_backticks s"] fix_backticks_length [of s]
  by (simp add: fix_text_def)

section \<open>Substitution A\<close>

text \<open>
  The comment above substitution A reads \<^verbatim>\<open># Fix escaped backticks\<close>, and an escaped
  backtick is a backslash followed by a backtick. The pattern text has every backslash
  written twice over, as the pattern text of substitution B has, so the compiled pattern
  asks for two backslashes before the backtick.

  Claim C1: every occurrence of the two characters backslash, backtick is rewritten by
  substitution A to a single backtick, and nothing else is altered. On the text that is
  just these two characters the code finds no match and returns the text as it is: the
  escaped backtick is not fixed.
\<close>

theorem fix_backticks_keeps_escaped_backtick:
  "fix_backticks [backslash, backtick] = [backslash, backtick] \<and>
   fix_text [backslash, backtick] = [backslash, backtick]"
  by (simp add: fix_text_def fix_dollars_Cons fix_backticks_copy)

text \<open>
  Claim C2: on the text backslash, backslash, backtick only the trailing pair backslash,
  backtick is replaced, which leaves one backslash followed by one backtick. The code
  matches all three characters and returns a single backtick: the leading backslash, which
  is no part of the escaped backtick, is deleted with it.
\<close>

theorem fix_text_deletes_leading_backslash:
  "fix_text [backslash, backslash, backtick] = [backtick] \<and>
   fix_text [backslash, backslash, backtick] \<noteq> [backslash, backtick]"
  by (simp add: fix_text_def fix_dollars_Cons)

section \<open>Applying the transformation twice\<close>




section \<open>The order of the two substitutions\<close>

text \<open>
  Claim C4: the two substitutions commute; on every text, substitution A followed by
  substitution B gives the same result as substitution B followed by substitution A.
\<close>

theorem fix_backticks_fix_dollars_commute:
  "(fix_dollars \<circ> fix_backticks) s = (fix_backticks \<circ> fix_dollars) s"
  by (simp add: substitutions_commute)

section \<open>Substitution B\<close>

text \<open>
  Claim C5: substitution B rewrites backslash, backslash, dollar to a single dollar sign.
  The pattern of substitution B ends in a dollar sign that is not escaped, which is the
  end anchor: the pattern is three backslashes at the end of the text, and no dollar sign
  of the text is ever part of a match. On the minimal input of the claim, two backslashes
  and a dollar sign, substitution B returns the input.
\<close>

theorem fix_dollars_keeps_escaped_dollar:
  "fix_dollars [backslash, backslash, dollar] = [backslash, backslash, dollar] \<and>
   fix_text [backslash, backslash, dollar] = [backslash, backslash, dollar]"
  by (simp add: fix_text_def fix_dollars_Cons fix_backticks_copy)

text \<open>
  Claim C10: the output is obtained from the input by deleting backslashes only. On the
  text of three backslashes the transformation returns a dollar sign, a character the
  input does not contain, so the output is no subsequence of the input.
\<close>

theorem fix_text_inserts_dollar:
  "fix_text [backslash, backslash, backslash] = [dollar] \<and>
   \<not> subseq (fix_text [backslash, backslash, backslash]) [backslash, backslash, backslash]"
  by (simp add: fix_text_def fix_dollars_Cons fix_backticks_copy)

section \<open>One call of \<open>fix_template_literals\<close>\<close>

lemma write_text_stdout: "stdout (snd (write_text filename content w)) = stdout w"
  by (simp add: write_text_def split: option.splits)

lemma read_text_fails:
  "read_text filename w = Inl e \<Longrightarrow>
   fix_template_literals filename w =
     (Inr (), print (''Error fixing '' @ filename @ '': '' @ str e) w)"
  by (simp add: fix_template_literals_def try_body_def)

lemma write_text_fails:
  "read_text filename w = Inr content \<Longrightarrow>
   write_text filename (fix_text content) w = (Inl e, w') \<Longrightarrow>
   fix_template_literals filename w =
     (Inr (), print (''Error fixing '' @ filename @ '': '' @ str e) w')"
  by (simp add: fix_template_literals_def try_body_def fix_text_def)

lemma all_succeed:
  "read_text filename w = Inr content \<Longrightarrow>
   write_text filename (fix_text content) w = (Inr u, w') \<Longrightarrow>
   fix_template_literals filename w = (Inr (), print (''Fixed '' @ filename) w')"
  by (simp add: fix_template_literals_def try_body_def fix_text_def)

lemma fix_template_literals_returns: "fst (fix_template_literals filename w) = Inr ()"
  by (simp add: fix_template_literals_def split: prod.splits sum.splits)

lemma for_each_file_fold:
  "for_each_file ps w =
     (Inr (), fold (\<lambda>filename w. snd (fix_template_literals filename w)) ps w)"
proof (induction ps arbitrary: w)
  case Nil
  show ?case by simp
next
  case (Cons p ps)
  obtain r w' where f: "fix_template_literals p w = (r, w')"
    by (cases "fix_template_literals p w")
  with fix_template_literals_returns [of p w] have "r = Inr ()" by simp
  with f Cons.IH [of w'] show ?case by simp
qed

lemma write_text_stored:
  "fst (write_text filename content w) = Inr () \<Longrightarrow>
   map_option contents (disk (snd (write_text filename content w)) filename) =
     Some (Text content)"
  by (auto simp: write_text_def split: option.splits if_splits)

lemma print_disk: "disk (print line w) = disk w"
  by (simp add: print_def)

lemma print_stdout: "stdout (print line w) = stdout w @ line @ [newline]"
  by (simp add: print_def)

lemma write_text_result:
  "write_text filename content w =
     (fst (write_text filename content w), snd (write_text filename content w))"
  by simp

section \<open>Errors and the driver\<close>

text \<open>
  Claim C7: every error raised during one file's patch (missing file, permission, decode
  or write failure) is caught inside \<open>fix_template_literals\<close>, reported as a diagnostic
  and never propagated, and the driver calls \<open>fix_template_literals\<close> on every path of
  the list of six. An error of the \<^verbatim>\<open>try\<close> body becomes the printed error line; the
  function never returns an error; the main block is the six calls in order, each on the
  world the one before left.
\<close>

theorem errors_caught_and_driver_continues:
  "(try_body filename w = (Inl e, w') \<longrightarrow>
      fix_template_literals filename w =
        (Inr (), print (''Error fixing '' @ filename @ '': '' @ str e) w')) \<and>
   fst (fix_template_literals filename w) = Inr () \<and>
   main w = (Inr (), fold (\<lambda>filename w. snd (fix_template_literals filename w)) files w) \<and>
   length files = 6"
  by (simp add: fix_template_literals_returns main_def for_each_file_fold)
     (simp add: fix_template_literals_def files_def)

text \<open>
  An instance of claim C7: the missing third path is reported, and the run over the
  example world prints six lines, one for each path in order.
\<close>

theorem errors_caught_and_driver_continues_witness:
  "try_body ''src/jetstream-collector-enhanced.ts'' example_world =
     (Inl (FileNotFoundError ''src/jetstream-collector-enhanced.ts''), example_world) \<and>
   fix_template_literals ''src/jetstream-collector-enhanced.ts'' example_world =
     (Inr (), print (''Error fixing src/jetstream-collector-enhanced.ts: '' @
        ''[Errno 2] No such file or directory: '' @
        quoted ''src/jetstream-collector-enhanced.ts'') example_world) \<and>
   fst (main example_world) = Inr () \<and>
   stdout (snd (main example_world)) =
     ''Fixed src/api-server.ts'' @ [newline] @
     ''Error fixing src/backfill/utils.ts: invalid start byte'' @ [newline] @
     ''Error fixing src/jetstream-collector-enhanced.ts: '' @
       ''[Errno 2] No such file or directory: '' @
       quoted ''src/jetstream-collector-enhanced.ts'' @ [newline] @
     ''Error fixing src/production-test.ts: [Errno 13] Permission denied: '' @
       quoted ''src/production-test.ts'' @ [newline] @
     ''Error fixing src/startup-validator.ts: [Errno 28] No space left on device'' @
       [newline] @
     ''Fixed src/strategies.ts'' @ [newline]"
proof -
  have h: "try_body ''src/jetstream-collector-enhanced.ts'' example_world =
     (Inl (FileNotFoundError ''src/jetstream-collector-enhanced.ts''), example_world)"
    by (simp add: try_body_def read_text_def example_world_def)
  have m: "main example_world =
     (Inr (), fold (\<lambda>filename w. snd (fix_template_literals filename w)) files example_world)"
    using errors_caught_and_driver_continues
      [of "''src/jetstream-collector-enhanced.ts''" example_world] by blast
  have o: "stdout (fold (\<lambda>filename w. snd (fix_template_literals filename w)) files
      example_world) =
     ''Fixed src/api-server.ts'' @ [newline] @
     ''Error fixing src/backfill/utils.ts: invalid start byte'' @ [newline] @
     ''Error fixing src/jetstream-collector-enhanced.ts: '' @
       ''[Errno 2] No such file or directory: '' @
       quoted ''src/jetstream-collector-enhanced.ts'' @ [newline] @
     ''Error fixing src/production-test.ts: [Errno 13] Permission denied: '' @
       quoted ''src/production-test.ts'' @ [newline] @
     ''Error fixing src/startup-validator.ts: [Errno 28] No space left on device'' @
       [newline] @
     ''Fixed src/strategies.ts'' @ [newline]"
    by (simp add: files_def fix_template_literals_def try_body_def read_text_def
        write_text_def print_def example_world_def quoted_def fix_dollars_Cons
        fix_backticks_copy)
  from h m o
    errors_caught_and_driver_continues
      [of "''src/jetstream-collector-enhanced.ts''" example_world
        "FileNotFoundError ''src/jetstream-collector-enhanced.ts''" example_world]
  show ?thesis by simp
qed

section \<open>The file after a call\<close>

text \<open>
  Claim C8: if the patch fails while reading or decoding, the file (here: the whole disk)
  is left as it was; if reading and writing both succeed, the file holds exactly the
  transformed content.
\<close>

theorem file_unchanged_or_replaced:
  "(read_text filename w = Inl e \<longrightarrow>
      disk (snd (fix_template_literals filename w)) = disk w) \<and>
   (read_text filename w = Inr content \<and>
    fst (write_text filename (fix_text content) w) = Inr () \<longrightarrow>
      map_option contents (disk (snd (fix_template_literals filename w)) filename) =
        Some (Text (fix_text content)))"
proof (intro conjI impI)
  assume "read_text filename w = Inl e"
  then show "disk (snd (fix_template_literals filename w)) = disk w"
    by (simp add: read_text_fails print_disk)
next
  assume h: "read_text filename w = Inr content \<and>
    fst (write_text filename (fix_text content) w) = Inr ()"
  then have "write_text filename (fix_text content) w =
      (Inr (), snd (write_text filename (fix_text content) w))"
    using write_text_result [of filename "fix_text content" w] by simp
  with h have "fix_template_literals filename w =
      (Inr (), print (''Fixed '' @ filename) (snd (write_text filename (fix_text content) w)))"
    using all_succeed by blast
  with h show "map_option contents (disk (snd (fix_template_literals filename w)) filename) =
      Some (Text (fix_text content))"
    by (simp add: print_disk write_text_stored)
qed

text \<open>
  An instance of claim C8: the file that does not decode is left alone, and the file with
  an escaped backtick holds the transformed text.
\<close>

theorem file_unchanged_or_replaced_witness:
  "read_text ''src/backfill/utils.ts'' example_world =
     Inl (UnicodeDecodeError ''invalid start byte'') \<and>
   disk (snd (fix_template_literals ''src/backfill/utils.ts'' example_world)) =
     disk example_world \<and>
   read_text ''src/strategies.ts'' example_world =
     Inr (''x = '' @ [backslash, backslash, backtick] @ ''y'') \<and>
   fst (write_text ''src/strategies.ts''
          (fix_text (''x = '' @ [backslash, backslash, backtick] @ ''y'')) example_world) =
     Inr () \<and>
   map_option contents
     (disk (snd (fix_template_literals ''src/strategies.ts'' example_world))
        ''src/strategies.ts'') =
     Some (Text (''x = '' @ [backtick] @ ''y''))"
proof -
  have r1: "read_text ''src/backfill/utils.ts'' example_world =
      Inl (UnicodeDecodeError ''invalid start byte'')"
    by (simp add: read_text_def example_world_def)
  have r2: "read_text ''src/strategies.ts'' example_world =
      Inr (''x = '' @ [backslash, backslash, backtick] @ ''y'')"
    by (simp add: read_text_def example_world_def)
  have w2: "fst (write_text ''src/strategies.ts''
      (fix_text (''x = '' @ [backslash, backslash, backtick] @ ''y'')) example_world) = Inr ()"
    by (simp add: write_text_def example_world_def)
  have t: "fix_text (''x = '' @ [backslash, backslash, backtick] @ ''y'') =
      ''x = '' @ [backtick] @ ''y''"
    by (simp add: fix_text_def fix_dollars_Cons fix_backticks_copy)
  from r1 r2 w2 t
    file_unchanged_or_replaced [of "''src/backfill/utils.ts''" example_world
      "UnicodeDecodeError ''invalid start byte''"]
    file_unchanged_or_replaced [of "''src/strategies.ts''" example_world _
      "''x = '' @ [backslash, backslash, backtick] @ ''y''"]
  show ?thesis by simp
qed

section \<open>The console after a call\<close>

text \<open>
  Claim C9: each call appends exactly one line to standard output: \<^verbatim>\<open>Fixed <path>\<close>
  when reading, transforming and writing all succeed, and
  \<^verbatim>\<open>Error fixing <path>: <message>\<close> when reading fails or writing fails.
\<close>

theorem one_console_line_per_call:
  "(read_text filename w = Inr content \<and>
    fst (write_text filename (fix_text content) w) = Inr () \<longrightarrow>
      stdout (snd (fix_template_literals filename w)) =
        stdout w @ ''Fixed '' @ filename @ [newline]) \<and>
   (read_text filename w = Inl e \<longrightarrow>
      stdout (snd (fix_template_literals filename w)) =
        stdout w @ ''Error fixing '' @ filename @ '': '' @ str e @ [newline]) \<and>
   (read_text filename w = Inr content \<and>
    fst (write_text filename (fix_text content) w) = Inl e \<longrightarrow>
      stdout (snd (fix_template_literals filename w)) =
        stdout w @ ''Error fixing '' @ filename @ '': '' @ str e @ [newline])"
proof (intro conjI impI)
  assume h: "read_text filename w = Inr content \<and>
    fst (write_text filename (fix_text content) w) = Inr ()"
  then have "write_text filename (fix_text content) w =
      (Inr (), snd (write_text filename (fix_text content) w))"
    using write_text_result [of filename "fix_text content" w] by simp
  with h have "fix_template_literals filename w =
      (Inr (), print (''Fixed '' @ filename) (snd (write_text filename (fix_text content) w)))"
    using all_succeed by blast
  then show "stdout (snd (fix_template_literals filename w)) =
      stdout w @ ''Fixed '' @ filename @ [newline]"
    by (simp add: print_stdout write_text_stdout)
next
  assume "read_text filename w = Inl e"
  then show "stdout (snd (fix_template_literals filename w)) =
      stdout w @ ''Error fixing '' @ filename @ '': '' @ str e @ [newline]"
    by (simp add: read_text_fails print_stdout)
next
  assume h: "read_text filename w = Inr content \<and>
    fst (write_text filename (fix_text content) w) = Inl e"
  then have "write_text filename (fix_text content) w =
      (Inl e, snd (write_text filename (fix_text content) w))"
    using write_text_result [of filename "fix_text content" w] by simp
  with h have "fix_template_literals filename w =
      (Inr (), print (''Error fixing '' @ filename @ '': '' @ str e)
         (snd (write_text filename (fix_text content) w)))"
    using write_text_fails by blast
  then show "stdout (snd (fix_template_literals filename w)) =
      stdout w @ ''Error fixing '' @ filename @ '': '' @ str e @ [newline]"
    by (simp add: print_stdout write_text_stdout)
qed

text \<open>
  An instance of claim C9 for each case: a file that is fixed, a missing file, and a file
  that is not writable.
\<close>

theorem one_console_line_per_call_witness:
  "read_text ''src/strategies.ts'' example_world =
     Inr (''x = '' @ [backslash, backslash, backtick] @ ''y'') \<and>
   fst (write_text ''src/strategies.ts''
          (fix_text (''x = '' @ [backslash, backslash, backtick] @ ''y'')) example_world) =
     Inr () \<and>
   stdout (snd (fix_template_literals ''src/strategies.ts'' example_world)) =
     ''Fixed src/strategies.ts'' @ [newline] \<and>
   read_text ''src/jetstream-collector-enhanced.ts'' example_world =
     Inl (FileNotFoundError ''src/jetstream-collector-enhanced.ts'') \<and>
   stdout (snd (fix_template_literals ''src/jetstream-collector-enhanced.ts'' example_world)) =
     ''Error fixing src/jetstream-collector-enhanced.ts: '' @
     ''[Errno 2] No such file or directory: '' @
     quoted ''src/jetstream-collector-enhanced.ts'' @ [newline] \<and>
   read_text ''src/production-test.ts'' example_world = Inr ''let a = 1;'' \<and>
   fst (write_text ''src/production-test.ts'' (fix_text ''let a = 1;'') example_world) =
     Inl (PermissionError ''src/production-test.ts'') \<and>
   stdout (snd (fix_template_literals ''src/production-test.ts'' example_world)) =
     ''Error fixing src/production-test.ts: [Errno 13] Permission denied: '' @
     quoted ''src/production-test.ts'' @ [newline]"
proof -
  have r1: "read_text ''src/strategies.ts'' example_world =
      Inr (''x = '' @ [backslash, backslash, backtick] @ ''y'')"
    by (simp add: read_text_def example_world_def)
  have w1: "fst (write_text ''src/strategies.ts''
      (fix_text (''x = '' @ [backslash, backslash, backtick] @ ''y'')) example_world) = Inr ()"
    by (simp add: write_text_def example_world_def)
  have r2: "read_text ''src/jetstream-collector-enhanced.ts'' example_world =
      Inl (FileNotFoundError ''src/jetstream-collector-enhanced.ts'')"
    by (simp add: read_text_def example_world_def)
  have r3: "read_text ''src/production-test.ts'' example_world = Inr ''let a = 1;''"
    by (simp add: read_text_def example_world_def)
  have w3: "fst (write_text ''src/production-test.ts'' (fix_text ''let a = 1;'')
      example_world) = Inl (PermissionError ''src/production-test.ts'')"
    by (simp add: write_text_def example_world_def)
  have s: "stdout example_world = []"
    by (simp add: example_world_def)
  from r1 w1 r2 r3 w3 s
    one_console_line_per_call [of "''src/strategies.ts''" example_world
      "''x = '' @ [backslash, backslash, backtick] @ ''y''"]
    one_console_line_per_call [of "''src/jetstream-collector-enhanced.ts''" example_world _
      "FileNotFoundError ''src/jetstream-collector-enhanced.ts''"]
    one_console_line_per_call [of "''src/production-test.ts''" example_world
      "''let a = 1;''" "PermissionError ''src/production-test.ts''"]
  show ?thesis by simp
qed

section \<open>A file without either escape\<close>

text \<open>
  Claim C6: a file that contains neither a backslash-escaped backtick nor a
  backslash-escaped dollar sign is written back identical to its input. The file of three
  backslashes contains no backtick and no dollar sign at all, yet substitution B matches
  the three backslashes at its end and the file is rewritten to a dollar sign.
\<close>

theorem pattern_free_file_is_rewritten:
  "read_text ''src/api-server.ts'' example_world = Inr [backslash, backslash, backslash] \<and>
   backtick \<notin> set [backslash, backslash, backslash] \<and>
   dollar \<notin> set [backslash, backslash, backslash] \<and>
   fix_text [backslash, backslash, backslash] = [dollar] \<and>
   map_option contents
     (disk (snd (fix_template_literals ''src/api-server.ts'' example_world))
        ''src/api-server.ts'') = Some (Text [dollar])"
  by (simp add: fix_template_literals_def try_body_def read_text_def write_text_def
      print_def example_world_def fix_text_def fix_dollars_Cons fix_backticks_copy)

end
